theory Spec2Isabelle
  imports Main
begin

section \<open>Attachment views of kuma (\<^verbatim>\<open>kuma/attachments/views.py\<close>)\<close>

text \<open>
  The module holds three Django views: \<^verbatim>\<open>raw_file\<close>, \<^verbatim>\<open>mindtouch_file_redirect\<close> and
  \<^verbatim>\<open>edit_attachment\<close>. Each is embedded as a function from the database and the request
  to the outcome of the view (an exception or a response) paired with the database it
  leaves behind. Exceptions are values; the collaborators the module imports from other
  modules are either parameters (the record \<open>env\<close>) or small models with the behaviour
  Django documents for them.
\<close>

subsection \<open>Exceptions\<close>

text \<open>
  The exceptions the views raise themselves (\<^verbatim>\<open>Http404\<close>, \<^verbatim>\<open>PermissionDenied\<close>), the one
  \<^verbatim>\<open>QuerySet.get\<close> raises on an ambiguous lookup, the class the handler of \<^verbatim>\<open>raw_file\<close>
  names (\<^verbatim>\<open>OSError\<close>), and two exception classes outside \<^verbatim>\<open>OSError\<close> that a size query
  of a file field can raise (\<^verbatim>\<open>ValueError\<close> when the field has no file,
  \<^verbatim>\<open>NotImplementedError\<close> for a storage without size support).
\<close>

datatype exception =
    Http404
  | PermissionDenied
  | MultipleObjectsReturned
  | OSError
  | ValueError
  | NotImplementedError

text \<open>What Django's request handler makes of the outcome of a view.\<close>

fun exception_status :: "exception \<Rightarrow> nat" where
  "exception_status Http404 = 404"
| "exception_status PermissionDenied = 403"
| "exception_status _ = 500"

subsection \<open>Data model\<close>

text \<open>
  A file field: what the storage yields when the file is read (the stored bytes, or the
  exception the read raises, as for a file that is missing), the read position of the
  open handle, and what the storage answers to a size query (a number, or the exception
  it raises).
\<close>

record field_file =
  file_data :: "exception + string"
  file_pos :: nat
  file_size :: "exception + nat"

definition DEFAULT_CHUNK_SIZE :: nat where
  "DEFAULT_CHUNK_SIZE = 64 * 2 ^ 10"

text \<open>
  \<^verbatim>\<open>f.read(n)\<close>: at most \<open>n\<close> bytes from the read position, which moves on; the read
  raises when the storage cannot deliver the file.
\<close>

definition file_read :: "nat \<Rightarrow> field_file \<Rightarrow> exception + (string \<times> field_file)" where
  "file_read n f =
     (case file_data f of
        Inl e \<Rightarrow> Inl e
      | Inr bytes \<Rightarrow>
          (let chunk = take n (drop (file_pos f) bytes)
           in Inr (chunk, f\<lparr>file_pos := file_pos f + length chunk\<rparr>)))"

text \<open>
  What iterating over a file yields, as the server does with the content of a streaming
  response when it sends it: Django's \<^verbatim>\<open>File.chunks\<close> seeks to the start and then reads
  to the end. The result is the bytes sent, or the exception that the iteration raises.
\<close>

definition file_chunks :: "field_file \<Rightarrow> exception + string" where
  "file_chunks f =
     (case file_data f of
        Inl e \<Rightarrow> Inl e
      | Inr bytes \<Rightarrow>
          (case file_read (length bytes) (f\<lparr>file_pos := 0\<rparr>) of
             Inl e \<Rightarrow> Inl e
           | Inr (chunk, f') \<Rightarrow> Inr chunk))"

record attachment_revision =
  rev_pk :: "nat option"
  rev_attachment :: "nat option"
  rev_title :: string
  rev_file :: field_file
  mime_type :: string
  created :: nat
  creator :: "nat option"

text \<open>
  An attachment as \<^verbatim>\<open>select_related('current_revision')\<close> loads it: the row together
  with the revision its nullable foreign key points to.
\<close>

record attachment =
  pk :: nat
  title :: string
  mindtouch_attachment_id :: "nat option"
  current_revision :: "attachment_revision option"

record document =
  doc_pk :: nat
  doc_locale :: string
  doc_slug :: string

record document_attachment =
  da_file :: nat
  da_document :: nat
  attached_by :: nat
  da_revision :: "nat option"

text \<open>A write sent to the persistence layer.\<close>

datatype db_write =
    InsertAttachment attachment
  | InsertRevision attachment_revision
  | InsertDocumentAttachment document_attachment

text \<open>
  The database: the tables the views touch, and the writes issued so far, oldest first.
\<close>

record db =
  attachments :: "attachment list"
  revisions :: "attachment_revision list"
  documents :: "document list"
  document_attachments :: "document_attachment list"
  writes :: "db_write list"

text \<open>
  What the views read of a request: \<^verbatim>\<open>request.method\<close> (the field \<open>req_method\<close>),
  the host the trust classifier looks at, the authenticated user, and the submitted
  form data and files.
\<close>

record request =
  req_method :: string
  host :: string
  user :: nat
  POST :: "(string \<times> string) list"
  FILES :: "(string \<times> field_file) list"

text \<open>A bound form: the data and the files it was built from.\<close>

record attachment_revision_form =
  form_data :: "(string \<times> string) list"
  form_files :: "(string \<times> field_file) list"

subsection \<open>Responses\<close>

datatype render_context = Context attachment_revision_form document

text \<open>
  The content of a response. A streaming response holds its file and reads it only when
  the response is sent, after the view has returned: \<open>Streaming (Inr bytes)\<close> is a body
  that delivers \<open>bytes\<close>, \<open>Streaming (Inl e)\<close> one whose iteration raises \<open>e\<close>.
\<close>

datatype content =
    NoContent
  | Streaming "exception + string"
  | Rendered string render_context

record response =
  status_code :: nat
  headers :: "string \<rightharpoonup> string"
  body :: content

type_synonym outcome = "exception + response"

text \<open>The HTTP status the client sees.\<close>

definition http_status :: "outcome \<Rightarrow> nat" where
  "http_status out = (case out of Inl e \<Rightarrow> exception_status e | Inr r \<Rightarrow> status_code r)"

text \<open>\<^verbatim>\<open>str(n)\<close> for a natural number, as Django stores an integer header value.\<close>

fun str_nat :: "nat \<Rightarrow> string" where
  "str_nat n =
     (if n < 10 then [''0123456789'' ! n]
      else str_nat (n div 10) @ [''0123456789'' ! (n mod 10)])"

declare str_nat.simps [simp del]

text \<open>\<^verbatim>\<open>response[name] = value\<close>.\<close>

definition set_header :: "string \<Rightarrow> string \<Rightarrow> response \<Rightarrow> response" where
  "set_header name v r = r\<lparr>headers := (headers r)(name \<mapsto> v)\<rparr>"

text \<open>\<^verbatim>\<open>django.shortcuts.redirect(to, permanent=...)\<close> for a URL.\<close>

definition redirect :: "string \<Rightarrow> bool \<Rightarrow> response" where
  "redirect to permanent =
     \<lparr>status_code = (if permanent then 301 else 302),
      headers = [''Location'' \<mapsto> to],
      body = NoContent\<rparr>"

text \<open>\<^verbatim>\<open>django.shortcuts.render(request, template_name, context)\<close>.\<close>

definition render :: "request \<Rightarrow> string \<Rightarrow> render_context \<Rightarrow> response" where
  "render req template_name ctx =
     \<lparr>status_code = 200, headers = Map.empty, body = Rendered template_name ctx\<rparr>"

text \<open>\<^verbatim>\<open>StreamingHttpResponse(f, content_type=ct)\<close>.\<close>

definition StreamingHttpResponse :: "field_file \<Rightarrow> string \<Rightarrow> response" where
  "StreamingHttpResponse f ct =
     \<lparr>status_code = 200, headers = [''Content-Type'' \<mapsto> ct], body = Streaming (file_chunks f)\<rparr>"

text \<open>
  The decorator \<^verbatim>\<open>cache_control(public=..., max_age=...)\<close>: the response of the wrapped
  view gets its \<^verbatim>\<open>Cache-Control\<close> header patched (here on a response that has none yet);
  an exception of the view passes through.
\<close>

definition cache_control :: "bool \<Rightarrow> nat \<Rightarrow> outcome \<Rightarrow> outcome" where
  "cache_control public max_age out =
     (case out of
        Inl e \<Rightarrow> Inl e
      | Inr r \<Rightarrow>
          Inr (set_header ''Cache-Control''
                 ((if public then ''public, '' else '''') @ ''max-age='' @ str_nat max_age) r))"

text \<open>
  The decorator \<^verbatim>\<open>xframe_options_sameorigin\<close>: a response without an
  \<^verbatim>\<open>X-Frame-Options\<close> header gets \<^verbatim>\<open>SAMEORIGIN\<close>.
\<close>

definition xframe_options_sameorigin :: "outcome \<Rightarrow> outcome" where
  "xframe_options_sameorigin out =
     (case out of
        Inl e \<Rightarrow> Inl e
      | Inr r \<Rightarrow>
          (case headers r ''X-Frame-Options'' of
             None \<Rightarrow> Inr (set_header ''X-Frame-Options'' ''SAMEORIGIN'' r)
           | Some _ \<Rightarrow> Inr r))"

subsection \<open>Collaborators from other modules\<close>

text \<open>
  Settings and functions that \<^verbatim>\<open>views.py\<close> imports and that are defined elsewhere:
  \<^verbatim>\<open>settings.DEBUG\<close>, \<^verbatim>\<open>settings.DOMAIN\<close>, \<^verbatim>\<open>kuma.core.utils.is_untrusted\<close>,
  \<^verbatim>\<open>allow_add_attachment_by\<close> and \<^verbatim>\<open>convert_to_http_date\<close> of \<^verbatim>\<open>.utils\<close>, the model methods
  \<^verbatim>\<open>Attachment.get_file_url\<close> and \<^verbatim>\<open>Document.get_edit_url\<close>, and of
  \<^verbatim>\<open>AttachmentRevisionForm\<close> the validation errors of a bound form and
  \<^verbatim>\<open>save(commit=False)\<close>. They are parameters of every view.
\<close>

record env =
  DEBUG :: bool
  DOMAIN :: string
  is_untrusted :: "request \<Rightarrow> bool"
  allow_add_attachment_by :: "nat \<Rightarrow> bool"
  convert_to_http_date :: "nat \<Rightarrow> string"
  get_file_url :: "attachment \<Rightarrow> string"
  get_edit_url :: "document \<Rightarrow> string"
  form_errors :: "attachment_revision_form \<Rightarrow> (string \<times> string) list"
  form_save :: "attachment_revision_form \<Rightarrow> attachment_revision"

text \<open>
  \<^verbatim>\<open>get_object_or_404(queryset, **lookup)\<close>: \<^verbatim>\<open>QuerySet.get\<close> returns the one matching row,
  raises \<^verbatim>\<open>DoesNotExist\<close> (turned into \<^verbatim>\<open>Http404\<close>) when there is none and
  \<^verbatim>\<open>MultipleObjectsReturned\<close> when there are several.
\<close>

definition get_object_or_404 :: "'a list \<Rightarrow> ('a \<Rightarrow> bool) \<Rightarrow> exception + 'a" where
  "get_object_or_404 qs lookup =
     (case filter lookup qs of
        [] \<Rightarrow> Inl Http404
      | [x] \<Rightarrow> Inr x
      | _ \<Rightarrow> Inl MultipleObjectsReturned)"

text \<open>\<^verbatim>\<open>AttachmentRevisionForm(data=request.POST, files=request.FILES)\<close>.\<close>

definition AttachmentRevisionForm ::
  "(string \<times> string) list \<Rightarrow> (string \<times> field_file) list \<Rightarrow> attachment_revision_form" where
  "AttachmentRevisionForm d fs = \<lparr>form_data = d, form_files = fs\<rparr>"

text \<open>\<^verbatim>\<open>form.is_valid()\<close> of a bound form: it has no errors.\<close>

definition is_valid :: "env \<Rightarrow> attachment_revision_form \<Rightarrow> bool" where
  "is_valid env form = (form_errors env form = [])"

text \<open>The next value of an auto-incremented primary key.\<close>

definition next_pk :: "nat list \<Rightarrow> nat" where
  "next_pk ks = Suc (foldr max ks 0)"

text \<open>
  Modelled from the spec: \<^verbatim>\<open>Attachment.objects.create(title=...)\<close> of
  \<^verbatim>\<open>kuma/attachments/models.py\<close>, "create a new Attachment entity with the form's title":
  one row with a fresh primary key, no legacy identifier and no current revision.
\<close>

definition Attachment_objects_create :: "string \<Rightarrow> db \<Rightarrow> attachment \<times> db" where
  "Attachment_objects_create t d =
     (let a = \<lparr>pk = next_pk (map pk (attachments d)), title = t,
                mindtouch_attachment_id = None, current_revision = None\<rparr>
      in (a, d\<lparr>attachments := attachments d @ [a],
               writes := writes d @ [InsertAttachment a]\<rparr>))"

text \<open>
  Modelled from the spec: \<^verbatim>\<open>AttachmentRevision.save()\<close> of
  \<^verbatim>\<open>kuma/attachments/models.py\<close>, "persist the revision": the revision becomes one row
  with a fresh primary key.
\<close>

definition revision_save :: "attachment_revision \<Rightarrow> db \<Rightarrow> attachment_revision \<times> db" where
  "revision_save r d =
     (let r' = r\<lparr>rev_pk := Some (next_pk (concat (map (\<lambda>x. case rev_pk x of None \<Rightarrow> [] | Some k \<Rightarrow> [k]) (revisions d))))\<rparr>
      in (r', d\<lparr>revisions := revisions d @ [r'],
                writes := writes d @ [InsertRevision r']\<rparr>))"

text \<open>
  Modelled from the spec: \<^verbatim>\<open>Attachment.attach(document, user, revision)\<close> of
  \<^verbatim>\<open>kuma/attachments/models.py\<close>, "associate the attachment with the document (recording
  who performed the attach and which revision)".
\<close>

definition attach :: "attachment \<Rightarrow> document \<Rightarrow> nat \<Rightarrow> attachment_revision \<Rightarrow> db \<Rightarrow> db" where
  "attach a doc u r d =
     (let da = \<lparr>da_file = pk a, da_document = doc_pk doc, attached_by = u,
                 da_revision = rev_pk r\<rparr>
      in d\<lparr>document_attachments := document_attachments d @ [da],
           writes := writes d @ [InsertDocumentAttachment da]\<rparr>)"

subsection \<open>The views\<close>

text \<open>
  The inner function \<^verbatim>\<open>stream_raw_file\<close> of \<^verbatim>\<open>raw_file\<close>, before its decorator. In
  development mode one chunk is read first, outside the \<^verbatim>\<open>try\<close>: an exception of that
  read, whatever its class, leaves the function. Of the size query only an \<^verbatim>\<open>OSError\<close>
  is caught; any other exception leaves the function as well.
\<close>

definition stream_raw_file_inner :: "env \<Rightarrow> attachment_revision \<Rightarrow> outcome" where
  "stream_raw_file_inner env rv =
     (case (if DEBUG env
            then (case file_read DEFAULT_CHUNK_SIZE (rev_file rv) of
                    Inl e \<Rightarrow> Inl e
                  | Inr (chunk, f') \<Rightarrow> Inr f')
            else Inr (rev_file rv)) of
        Inl e \<Rightarrow> Inl e
      | Inr f \<Rightarrow>
          (let response = StreamingHttpResponse f (mime_type rv);
               finish = (\<lambda>r. set_header ''X-Frame-Options'' (''ALLOW-FROM '' @ DOMAIN env)
                          (set_header ''Last-Modified'' (convert_to_http_date env (created rv)) r))
           in case file_size f of
                Inr n \<Rightarrow> Inr (finish (set_header ''Content-Length'' (str_nat n) response))
              | Inl e \<Rightarrow> if e = OSError then Inr (finish response) else Inl e))"

definition stream_raw_file :: "env \<Rightarrow> attachment_revision \<Rightarrow> outcome" where
  "stream_raw_file env rv = cache_control True (60 * 15) (stream_raw_file_inner env rv)"

definition raw_file :: "env \<Rightarrow> db \<Rightarrow> request \<Rightarrow> nat \<Rightarrow> string \<Rightarrow> outcome \<times> db" where
  "raw_file env d req attachment_id filename =
     (case get_object_or_404 (attachments d) (\<lambda>a. pk a = attachment_id) of
        Inl e \<Rightarrow> (Inl e, d)
      | Inr a \<Rightarrow>
          (case current_revision a of
             None \<Rightarrow> (Inl Http404, d)
           | Some rv \<Rightarrow>
               if is_untrusted env req then (stream_raw_file env rv, d)
               else (Inr (redirect (get_file_url env a) True), d)))"

definition mindtouch_file_redirect :: "env \<Rightarrow> db \<Rightarrow> request \<Rightarrow> nat \<Rightarrow> string \<Rightarrow> outcome \<times> db" where
  "mindtouch_file_redirect env d req file_id filename =
     (case get_object_or_404 (attachments d) (\<lambda>a. mindtouch_attachment_id a = Some file_id) of
        Inl e \<Rightarrow> (Inl e, d)
      | Inr a \<Rightarrow> (Inr (redirect (get_file_url env a) True), d))"

text \<open>
  The body of \<^verbatim>\<open>edit_attachment\<close>. Its decorators \<^verbatim>\<open>login_required\<close> and
  \<^verbatim>\<open>process_document_path\<close> have run: the request carries the authenticated user, and
  slug and locale are those of the path.
\<close>

definition edit_attachment_body :: "env \<Rightarrow> db \<Rightarrow> request \<Rightarrow> string \<Rightarrow> string \<Rightarrow> outcome \<times> db" where
  "edit_attachment_body env d req document_slug document_locale =
     (case get_object_or_404 (documents d)
             (\<lambda>doc. doc_locale doc = document_locale \<and> doc_slug doc = document_slug) of
        Inl e \<Rightarrow> (Inl e, d)
      | Inr doc \<Rightarrow>
          if req_method req \<noteq> ''POST'' then (Inr (redirect (get_edit_url env doc) False), d)
          else if \<not> allow_add_attachment_by env (user req) then (Inl PermissionDenied, d)
          else
            (let form = AttachmentRevisionForm (POST req) (FILES req) in
             if is_valid env form then
               (let revision = form_save env form;
                    revision = revision\<lparr>creator := Some (user req)\<rparr>;
                    (a, d1) = Attachment_objects_create (rev_title revision) d;
                    revision = revision\<lparr>rev_attachment := Some (pk a)\<rparr>;
                    (revision, d2) = revision_save revision d1;
                    d3 = attach a doc (user req) revision d2
                in (Inr (redirect (get_edit_url env doc) False), d3))
             else
               (Inr (render req ''attachments/edit_attachment.html'' (Context form doc)), d)))"

definition edit_attachment :: "env \<Rightarrow> db \<Rightarrow> request \<Rightarrow> string \<Rightarrow> string \<Rightarrow> outcome \<times> db" where
  "edit_attachment env d req document_slug document_locale =
     (case edit_attachment_body env d req document_slug document_locale of
        (out, d') \<Rightarrow> (xframe_options_sameorigin out, d'))"

subsection \<open>Rows that a lookup finds\<close>

text \<open>
  \<open>a\<close> is the attachment with primary key \<open>k\<close>: the one row of the table with that key.
\<close>

definition attachment_by_pk :: "db \<Rightarrow> nat \<Rightarrow> attachment \<Rightarrow> bool" where
  "attachment_by_pk d k a = (filter (\<lambda>x. pk x = k) (attachments d) = [a])"

text \<open>\<open>a\<close> is the one attachment whose legacy identifier is \<open>k\<close>.\<close>

definition attachment_by_mindtouch_id :: "db \<Rightarrow> nat \<Rightarrow> attachment \<Rightarrow> bool" where
  "attachment_by_mindtouch_id d k a =
     (filter (\<lambda>x. mindtouch_attachment_id x = Some k) (attachments d) = [a])"

text \<open>\<open>doc\<close> is the document of the given locale and slug.\<close>

definition document_by_path :: "db \<Rightarrow> string \<Rightarrow> string \<Rightarrow> document \<Rightarrow> bool" where
  "document_by_path d document_locale document_slug doc =
     (filter (\<lambda>x. doc_locale x = document_locale \<and> doc_slug x = document_slug) (documents d)
        = [doc])"

subsection \<open>A concrete installation\<close>

text \<open>
  An environment, a database and requests on which the views are run: the development
  mode is on (\<open>production_env\<close> is the same installation with the mode off), requests to the host \<^verbatim>\<open>files.example.org\<close> are untrusted, user 2 may
  upload, and the upload form requires a title and a file.
\<close>

definition example_env :: env where
  "example_env =
     \<lparr>DEBUG = True,
      DOMAIN = ''developer.example.org'',
      is_untrusted = (\<lambda>req. host req = ''files.example.org''),
      allow_add_attachment_by = (\<lambda>u. u = 2),
      convert_to_http_date = (\<lambda>t. ''day '' @ str_nat t),
      get_file_url = (\<lambda>a. ''/files/'' @ str_nat (pk a) @ ''/''),
      get_edit_url = (\<lambda>doc. ''/'' @ doc_locale doc @ ''/docs/'' @ doc_slug doc @ ''$edit''),
      form_errors = (\<lambda>f.
        (if map_of (form_data f) ''title'' = None
         then [(''title'', ''This field is required.'')] else []) @
        (if map_of (form_files f) ''file'' = None
         then [(''file'', ''This field is required.'')] else [])),
      form_save = (\<lambda>f.
        \<lparr>rev_pk = None, rev_attachment = None,
         rev_title = (case map_of (form_data f) ''title'' of None \<Rightarrow> '''' | Some t \<Rightarrow> t),
         rev_file = (case map_of (form_files f) ''file'' of
                       None \<Rightarrow> \<lparr>file_data = Inr '''', file_pos = 0, file_size = Inl ValueError\<rparr>
                     | Some x \<Rightarrow> x),
         mime_type = ''image/png'', created = 9, creator = None\<rparr>)\<rparr>"

definition production_env :: env where
  "production_env = example_env\<lparr>DEBUG := False\<rparr>"

definition example_file :: "exception + nat \<Rightarrow> field_file" where
  "example_file sz = \<lparr>file_data = Inr ''PNG'', file_pos = 0, file_size = sz\<rparr>"

text \<open>A file that is gone from the storage: reading it and asking its size both raise.\<close>

definition missing_file :: field_file where
  "missing_file = \<lparr>file_data = Inl OSError, file_pos = 0, file_size = Inl OSError\<rparr>"

definition example_revision :: "nat \<Rightarrow> exception + nat \<Rightarrow> attachment_revision" where
  "example_revision k sz =
     \<lparr>rev_pk = Some k, rev_attachment = Some k, rev_title = ''Logo'',
      rev_file = example_file sz, mime_type = ''image/png'', created = 7, creator = Some 2\<rparr>"

definition example_attachment :: "nat \<Rightarrow> attachment_revision option \<Rightarrow> attachment" where
  "example_attachment k r =
     \<lparr>pk = k, title = ''Logo'', mindtouch_attachment_id = Some (k + 10), current_revision = r\<rparr>"

definition example_document :: document where
  "example_document = \<lparr>doc_pk = 4, doc_locale = ''en-US'', doc_slug = ''Web''\<rparr>"

text \<open>
  Attachment 1 has a file of known size, attachment 2 has no current revision, the
  files of attachments 3, 4 and 5 can be read but their size queries raise
  \<^verbatim>\<open>OSError\<close>, \<^verbatim>\<open>ValueError\<close> and \<^verbatim>\<open>NotImplementedError\<close>, and the file of
  attachment 6 is missing.
\<close>

definition missing_revision :: attachment_revision where
  "missing_revision = (example_revision 6 (Inl OSError))\<lparr>rev_file := missing_file\<rparr>"

definition example_db :: db where
  "example_db =
     \<lparr>attachments =
        [example_attachment 1 (Some (example_revision 1 (Inr 3))),
         example_attachment 2 None,
         example_attachment 3 (Some (example_revision 3 (Inl OSError))),
         example_attachment 4 (Some (example_revision 4 (Inl ValueError))),
         example_attachment 5 (Some (example_revision 5 (Inl NotImplementedError))),
         example_attachment 6 (Some missing_revision)],
      revisions =
        [example_revision 1 (Inr 3), example_revision 3 (Inl OSError),
         example_revision 4 (Inl ValueError), example_revision 5 (Inl NotImplementedError),
         missing_revision],
      documents = [example_document],
      document_attachments = [],
      writes = []\<rparr>"

definition example_get :: "string \<Rightarrow> request" where
  "example_get h = \<lparr>req_method = ''GET'', host = h, user = 2, POST = [], FILES = []\<rparr>"

definition example_post :: "nat \<Rightarrow> (string \<times> string) list \<Rightarrow> request" where
  "example_post u d =
     \<lparr>req_method = ''POST'', host = ''developer.example.org'', user = u, POST = d,
      FILES = [(''file'', example_file (Inr 3))]\<rparr>"

section \<open>Properties of the views\<close>

subsection \<open>Files, strings and lookups\<close>

lemma str_nat_900: "str_nat 900 = ''900''"
  by (simp add: str_nat.simps)

text \<open>
  A read of a file that the storage cannot deliver raises; a read that succeeds changes
  neither what the file holds nor the answer to the size query. An iteration over the
  file yields what the storage yields for it.
\<close>

lemma file_read_Inl: "file_data f = Inl e \<Longrightarrow> file_read n f = Inl e"
  by (simp add: file_read_def)

lemma file_read_Inr:
  "file_data f = Inr bytes \<Longrightarrow>
   \<exists>chunk f'. file_read n f = Inr (chunk, f') \<and> file_data f' = file_data f \<and>
     file_size f' = file_size f"
  by (simp add: file_read_def Let_def)

lemma file_chunks_data: "file_chunks f = file_data f"
  by (simp add: file_chunks_def file_read_def Let_def split: sum.splits)

text \<open>
  A lookup returns a row exactly when one row matches, and fails with \<^verbatim>\<open>Http404\<close>
  exactly when none does.
\<close>

lemma get_object_or_404_Inr: "(get_object_or_404 xs P = Inr x) = (filter P xs = [x])"
  by (auto simp add: get_object_or_404_def split: list.splits)

lemma get_object_or_404_Http404: "(get_object_or_404 xs P = Inl Http404) = (filter P xs = [])"
  by (simp add: get_object_or_404_def split: list.splits)

lemma get_object_or_404_Inl:
  "get_object_or_404 xs P = Inl e \<Longrightarrow> e = Http404 \<or> e = MultipleObjectsReturned"
  by (auto simp add: get_object_or_404_def split: list.splits)

text \<open>
  In a table with unique primary keys every row is the attachment with its key.
\<close>

lemma filter_unique_key:
  "distinct (map f xs) \<Longrightarrow> x \<in> set xs \<Longrightarrow> filter (\<lambda>y. f y = f x) xs = [x]"
proof (induction xs)
  case Nil
  then show ?case by simp
next
  case (Cons y ys)
  show ?case
  proof (cases "y = x")
    case True
    with Cons.prems have "\<forall>z\<in>set ys. f z \<noteq> f x" by (auto simp add: image_iff)
    then have "filter (\<lambda>y. f y = f x) ys = []" by (simp add: filter_empty_conv)
    with True show ?thesis by simp
  next
    case False
    with Cons.prems have "x \<in> set ys" "f y \<noteq> f x" by auto
    with Cons show ?thesis by simp
  qed
qed

lemma attachment_by_pk_unique:
  "distinct (map pk (attachments d)) \<Longrightarrow> a \<in> set (attachments d) \<Longrightarrow> attachment_by_pk d (pk a) a"
  unfolding attachment_by_pk_def by (rule filter_unique_key)

lemma document_lookup:
  "document_by_path d document_locale document_slug doc \<Longrightarrow>
   get_object_or_404 (documents d)
     (\<lambda>x. doc_locale x = document_locale \<and> doc_slug x = document_slug) = Inr doc"
  by (simp add: get_object_or_404_Inr document_by_path_def)

text \<open>
  An auto-incremented key is new.
\<close>

lemma foldr_max_ge: "k \<in> set ks \<Longrightarrow> k \<le> foldr max ks (0::nat)"
  by (induction ks) (auto simp add: max_def)

lemma next_pk_fresh: "next_pk ks \<notin> set ks"
proof
  assume "next_pk ks \<in> set ks"
  then have "next_pk ks \<le> foldr max ks 0" by (rule foldr_max_ge)
  then show False by (simp add: next_pk_def)
qed

lemmas example_defs =
  example_env_def example_db_def example_attachment_def example_revision_def
  example_file_def example_document_def example_get_def example_post_def
  missing_file_def missing_revision_def production_env_def

lemma example_document_by_path: "document_by_path example_db ''en-US'' ''Web'' example_document"
  by (simp add: document_by_path_def example_db_def example_document_def)

subsection \<open>Serving a file: \<^verbatim>\<open>raw_file\<close>\<close>

text \<open>
  The streaming branch. In development mode a read that raises ends it with the
  exception of the read. Otherwise its result depends on the answer of the size query
  only; the body is what an iteration over the file yields.
\<close>

lemma stream_raw_file_read_raises:
  "DEBUG env \<Longrightarrow> file_data (rev_file rv) = Inl e \<Longrightarrow> stream_raw_file env rv = Inl e"
  by (simp add: stream_raw_file_def stream_raw_file_inner_def cache_control_def file_read_Inl)

lemma stream_raw_file_inner_eq:
  assumes "DEBUG env \<longrightarrow> (\<exists>bytes. file_data (rev_file rv) = Inr bytes)"
  shows "stream_raw_file_inner env rv =
    (case file_size (rev_file rv) of
       Inr n \<Rightarrow> Inr \<lparr>status_code = 200,
                   headers = [''Content-Type'' \<mapsto> mime_type rv,
                              ''Content-Length'' \<mapsto> str_nat n,
                              ''Last-Modified'' \<mapsto> convert_to_http_date env (created rv),
                              ''X-Frame-Options'' \<mapsto> ''ALLOW-FROM '' @ DOMAIN env],
                   body = Streaming (file_data (rev_file rv))\<rparr>
     | Inl e \<Rightarrow> if e = OSError then Inr \<lparr>status_code = 200,
                   headers = [''Content-Type'' \<mapsto> mime_type rv,
                              ''Last-Modified'' \<mapsto> convert_to_http_date env (created rv),
                              ''X-Frame-Options'' \<mapsto> ''ALLOW-FROM '' @ DOMAIN env],
                   body = Streaming (file_data (rev_file rv))\<rparr> else Inl e)"
proof (cases "DEBUG env")
  case True
  with assms obtain bytes where "file_data (rev_file rv) = Inr bytes" by blast
  from file_read_Inr [OF this, of DEFAULT_CHUNK_SIZE]
  obtain chunk f' where "file_read DEFAULT_CHUNK_SIZE (rev_file rv) = Inr (chunk, f')"
    and "file_data f' = file_data (rev_file rv)" and "file_size f' = file_size (rev_file rv)"
    by blast
  with True show ?thesis
    by (simp add: stream_raw_file_inner_def set_header_def StreamingHttpResponse_def
        file_chunks_data Let_def split: sum.splits)
next
  case False
  then show ?thesis
    by (simp add: stream_raw_file_inner_def set_header_def StreamingHttpResponse_def
        file_chunks_data Let_def split: sum.splits)
qed

lemma stream_raw_file_eq:
  assumes "DEBUG env \<longrightarrow> (\<exists>bytes. file_data (rev_file rv) = Inr bytes)"
  shows "stream_raw_file env rv =
    (case file_size (rev_file rv) of
       Inr n \<Rightarrow> Inr \<lparr>status_code = 200,
                   headers = [''Content-Type'' \<mapsto> mime_type rv,
                              ''Content-Length'' \<mapsto> str_nat n,
                              ''Last-Modified'' \<mapsto> convert_to_http_date env (created rv),
                              ''X-Frame-Options'' \<mapsto> ''ALLOW-FROM '' @ DOMAIN env,
                              ''Cache-Control'' \<mapsto> ''public, max-age=900''],
                   body = Streaming (file_data (rev_file rv))\<rparr>
     | Inl e \<Rightarrow> if e = OSError then Inr \<lparr>status_code = 200,
                   headers = [''Content-Type'' \<mapsto> mime_type rv,
                              ''Last-Modified'' \<mapsto> convert_to_http_date env (created rv),
                              ''X-Frame-Options'' \<mapsto> ''ALLOW-FROM '' @ DOMAIN env,
                              ''Cache-Control'' \<mapsto> ''public, max-age=900''],
                   body = Streaming (file_data (rev_file rv))\<rparr> else Inl e)"
  by (simp add: stream_raw_file_def stream_raw_file_inner_eq [OF assms] cache_control_def
      set_header_def str_nat_900 split: sum.splits)

text \<open>
  \<^verbatim>\<open>raw_file\<close> on an attachment with a current revision, and its two not-found cases:
  no attachment has the key, or the attachment has no current revision.
\<close>

lemma raw_file_found:
  assumes "attachment_by_pk d attachment_id a" and "current_revision a = Some rv"
  shows "raw_file env d req attachment_id filename =
           (if is_untrusted env req then stream_raw_file env rv
            else Inr (redirect (get_file_url env a) True), d)"
proof -
  from assms(1) have "get_object_or_404 (attachments d) (\<lambda>x. pk x = attachment_id) = Inr a"
    by (simp add: get_object_or_404_Inr attachment_by_pk_def)
  with assms(2) show ?thesis by (simp add: raw_file_def)
qed

lemma raw_file_missing:
  "\<forall>a\<in>set (attachments d). pk a \<noteq> attachment_id \<Longrightarrow>
   raw_file env d req attachment_id filename = (Inl Http404, d)"
  by (simp add: raw_file_def get_object_or_404_def filter_empty_conv[THEN iffD2])

lemma raw_file_no_revision:
  assumes "attachment_by_pk d attachment_id a" and "current_revision a = None"
  shows "raw_file env d req attachment_id filename = (Inl Http404, d)"
proof -
  from assms(1) have "get_object_or_404 (attachments d) (\<lambda>x. pk x = attachment_id) = Inr a"
    by (simp add: get_object_or_404_Inr attachment_by_pk_def)
  with assms(2) show ?thesis by (simp add: raw_file_def)
qed

text \<open>
  The file of attachment 6 of the example database is missing. In development mode the
  read before the \<^verbatim>\<open>try\<close> raises and the untrusted request ends with \<^verbatim>\<open>OSError\<close>
  (status 500). With the mode off the size query raises \<^verbatim>\<open>OSError\<close>, which is caught,
  and a 200 response is returned whose body raises when it is sent.
\<close>

lemma attachment_6: "attachment_by_pk example_db 6 (example_attachment 6 (Some missing_revision))"
  by (simp add: attachment_by_pk_def example_defs)

lemma raw_file_missing_file_debug:
  "raw_file example_env example_db (example_get ''files.example.org'') 6 ''logo.png'' =
     (Inl OSError, example_db)"
proof -
  have c: "current_revision (example_attachment 6 (Some missing_revision)) = Some missing_revision"
    by (simp add: example_attachment_def)
  have u: "is_untrusted example_env (example_get ''files.example.org'')"
    by (simp add: example_env_def example_get_def)
  have "stream_raw_file example_env missing_revision = Inl OSError"
    by (rule stream_raw_file_read_raises)
       (simp_all add: example_env_def missing_revision_def missing_file_def)
  with raw_file_found [OF attachment_6 c, of example_env "example_get ''files.example.org''"
      "''logo.png''"] u
  show ?thesis by simp
qed

lemma raw_file_missing_file_production:
  "\<exists>r. raw_file production_env example_db (example_get ''files.example.org'') 6 ''logo.png'' =
          (Inr r, example_db) \<and>
        status_code r = 200 \<and> body r = Streaming (Inl OSError) \<and>
        headers r ''Content-Length'' = None"
proof -
  have c: "current_revision (example_attachment 6 (Some missing_revision)) = Some missing_revision"
    by (simp add: example_attachment_def)
  have u: "is_untrusted production_env (example_get ''files.example.org'')"
    by (simp add: production_env_def example_env_def example_get_def)
  have nd: "DEBUG production_env \<longrightarrow> (\<exists>bytes. file_data (rev_file missing_revision) = Inr bytes)"
    by (simp add: production_env_def)
  have v: "file_size (rev_file missing_revision) = Inl OSError"
    "file_data (rev_file missing_revision) = Inl OSError"
    by (simp_all add: missing_revision_def missing_file_def)
  from raw_file_found [OF attachment_6 c, of production_env "example_get ''files.example.org''"
      "''logo.png''"] u
  show ?thesis by (simp add: stream_raw_file_eq [OF nd] v)
qed

text \<open>
  C2, as amended. For every attachment that exists and has a current revision whose
  stored file can be read and whose size query either succeeds or raises
  \<^verbatim>\<open>OSError\<close>, an untrusted request to \<^verbatim>\<open>raw_file\<close> returns a 200 streaming response
  whose body is the stored bytes of the current revision, with \<^verbatim>\<open>Content-Type\<close> the
  MIME type of the revision, \<^verbatim>\<open>Last-Modified\<close> computed from its creation time,
  \<^verbatim>\<open>Cache-Control\<close> \<^verbatim>\<open>public, max-age=900\<close> and \<^verbatim>\<open>X-Frame-Options\<close>
  \<^verbatim>\<open>ALLOW-FROM\<close> followed by the domain of the application. The database is unchanged.
\<close>

theorem raw_file_untrusted_streams:
  assumes "attachment_by_pk d attachment_id a"
    and "current_revision a = Some rv"
    and "is_untrusted env req"
    and "file_data (rev_file rv) = Inr bytes"
    and "\<forall>e. file_size (rev_file rv) = Inl e \<longrightarrow> e = OSError"
  shows "\<exists>r. raw_file env d req attachment_id filename = (Inr r, d) \<and>
             status_code r = 200 \<and>
             body r = Streaming (Inr bytes) \<and>
             headers r ''Content-Type'' = Some (mime_type rv) \<and>
             headers r ''Last-Modified'' = Some (convert_to_http_date env (created rv)) \<and>
             headers r ''Cache-Control'' = Some ''public, max-age=900'' \<and>
             headers r ''X-Frame-Options'' = Some (''ALLOW-FROM '' @ DOMAIN env)"
proof -
  from assms(4) have rd: "DEBUG env \<longrightarrow> (\<exists>bytes. file_data (rev_file rv) = Inr bytes)"
    by simp
  show ?thesis
  proof (cases "file_size (rev_file rv)")
    case (Inl e)
    with assms(5) have "file_size (rev_file rv) = Inl OSError" by simp
    then show ?thesis
      using raw_file_found [OF assms(1,2)] assms(3,4) by (simp add: stream_raw_file_eq [OF rd])
  next
    case (Inr n)
    then show ?thesis
      using raw_file_found [OF assms(1,2)] assms(3,4) by (simp add: stream_raw_file_eq [OF rd])
  qed
qed

text \<open>
  The theorem at attachment 1 of the example database, whose file holds three bytes, in
  development mode.
\<close>

theorem raw_file_untrusted_streams_witness:
  "attachment_by_pk example_db 1 (example_attachment 1 (Some (example_revision 1 (Inr 3)))) \<and>
   is_untrusted example_env (example_get ''files.example.org'') \<and>
   file_data (rev_file (example_revision 1 (Inr 3))) = Inr ''PNG'' \<and>
   file_size (rev_file (example_revision 1 (Inr 3))) = Inr 3 \<and>
   (\<exists>r. raw_file example_env example_db (example_get ''files.example.org'') 1 ''logo.png'' =
          (Inr r, example_db) \<and>
        status_code r = 200 \<and> body r = Streaming (Inr ''PNG'') \<and>
        headers r ''Content-Type'' = Some ''image/png'' \<and>
        headers r ''Last-Modified'' = Some ''day 7'' \<and>
        headers r ''Cache-Control'' = Some ''public, max-age=900'' \<and>
        headers r ''X-Frame-Options'' = Some ''ALLOW-FROM developer.example.org'')"
proof -
  let ?rv = "example_revision 1 (Inr 3)"
  have h1: "attachment_by_pk example_db 1 (example_attachment 1 (Some ?rv))"
    by (simp add: attachment_by_pk_def example_defs)
  have h2: "current_revision (example_attachment 1 (Some ?rv)) = Some ?rv"
    by (simp add: example_attachment_def)
  have h3: "is_untrusted example_env (example_get ''files.example.org'')"
    by (simp add: example_env_def example_get_def)
  have h4: "file_data (rev_file ?rv) = Inr ''PNG''"
    by (simp add: example_revision_def example_file_def)
  have sz: "file_size (rev_file ?rv) = Inr 3"
    by (simp add: example_revision_def example_file_def)
  then have h5: "\<forall>e. file_size (rev_file ?rv) = Inl e \<longrightarrow> e = OSError"
    by simp
  have vals: "mime_type ?rv = ''image/png''"
    "convert_to_http_date example_env (created ?rv) = ''day 7''"
    "DOMAIN example_env = ''developer.example.org''"
    by (simp_all add: example_revision_def example_env_def str_nat.simps)
  from raw_file_untrusted_streams [OF h1 h2 h3 h4 h5, of "''logo.png''"]
  have "\<exists>r. raw_file example_env example_db (example_get ''files.example.org'') 1 ''logo.png'' =
          (Inr r, example_db) \<and>
        status_code r = 200 \<and> body r = Streaming (Inr ''PNG'') \<and>
        headers r ''Content-Type'' = Some ''image/png'' \<and>
        headers r ''Last-Modified'' = Some ''day 7'' \<and>
        headers r ''Cache-Control'' = Some ''public, max-age=900'' \<and>
        headers r ''X-Frame-Options'' = Some ''ALLOW-FROM developer.example.org''"
    by (simp add: vals del: One_nat_def)
  with h1 h3 h4 sz show ?thesis by (intro conjI)
qed

text \<open>
  C2 as stated, for every attachment with a current revision, fails: attachment 5 exists
  and has a current revision whose file can be read, the request is untrusted, the size
  query raises \<^verbatim>\<open>NotImplementedError\<close>, which \<^verbatim>\<open>except OSError\<close> does not catch, and
  the view ends with that exception (status 500) instead of a 200 response.
\<close>

theorem raw_file_untrusted_counterexample:
  "attachment_by_pk example_db 5
     (example_attachment 5 (Some (example_revision 5 (Inl NotImplementedError)))) \<and>
   current_revision (example_attachment 5 (Some (example_revision 5 (Inl NotImplementedError)))) =
     Some (example_revision 5 (Inl NotImplementedError)) \<and>
   file_data (rev_file (example_revision 5 (Inl NotImplementedError))) = Inr ''PNG'' \<and>
   is_untrusted example_env (example_get ''files.example.org'') \<and>
   raw_file example_env example_db (example_get ''files.example.org'') 5 ''logo.png'' =
     (Inl NotImplementedError, example_db) \<and>
   http_status (fst (raw_file example_env example_db (example_get ''files.example.org'') 5
     ''logo.png'')) = 500"
proof -
  let ?rv = "example_revision 5 (Inl NotImplementedError)"
  have h1: "attachment_by_pk example_db 5 (example_attachment 5 (Some ?rv))"
    by (simp add: attachment_by_pk_def example_defs)
  have h2: "current_revision (example_attachment 5 (Some ?rv)) = Some ?rv"
    by (simp add: example_attachment_def)
  have h3: "is_untrusted example_env (example_get ''files.example.org'')"
    by (simp add: example_env_def example_get_def)
  have dt: "file_data (rev_file ?rv) = Inr ''PNG''"
    by (simp add: example_revision_def example_file_def)
  then have rd: "DEBUG example_env \<longrightarrow> (\<exists>bytes. file_data (rev_file ?rv) = Inr bytes)"
    by simp
  have sz: "file_size (rev_file ?rv) = Inl NotImplementedError"
    by (simp add: example_revision_def example_file_def)
  have run: "raw_file example_env example_db (example_get ''files.example.org'') 5 ''logo.png'' =
     (Inl NotImplementedError, example_db)"
    using raw_file_found [OF h1 h2, of example_env "example_get ''files.example.org''" "''logo.png''"]
      h3 sz by (simp add: stream_raw_file_eq [OF rd])
  show ?thesis using h1 h2 h3 dt run by (simp add: http_status_def)
qed

text \<open>
  C3. For every attachment that exists and has a current revision, a trusted request to
  \<^verbatim>\<open>raw_file\<close> returns a permanent redirect (301) to the file URL of the attachment;
  the response has no content, and the database is unchanged.
\<close>

theorem raw_file_trusted_redirect:
  assumes "attachment_by_pk d attachment_id a"
    and "current_revision a = Some rv"
    and "\<not> is_untrusted env req"
  shows "raw_file env d req attachment_id filename =
           (Inr \<lparr>status_code = 301, headers = [''Location'' \<mapsto> get_file_url env a],
                 body = NoContent\<rparr>, d)"
  using raw_file_found [OF assms(1,2)] assms(3) by (simp add: redirect_def)

text \<open>
  The theorem at attachment 1 of the example database.
\<close>

theorem raw_file_trusted_redirect_witness:
  "attachment_by_pk example_db 1 (example_attachment 1 (Some (example_revision 1 (Inr 3)))) \<and>
   \<not> is_untrusted example_env (example_get ''developer.example.org'') \<and>
   raw_file example_env example_db (example_get ''developer.example.org'') 1 ''logo.png'' =
     (Inr \<lparr>status_code = 301, headers = [''Location'' \<mapsto> ''/files/1/''], body = NoContent\<rparr>,
      example_db)"
proof -
  have h1: "attachment_by_pk example_db 1 (example_attachment 1 (Some (example_revision 1 (Inr 3))))"
    by (simp add: attachment_by_pk_def example_defs)
  have h2: "current_revision (example_attachment 1 (Some (example_revision 1 (Inr 3)))) =
              Some (example_revision 1 (Inr 3))"
    by (simp add: example_attachment_def)
  have h3: "\<not> is_untrusted example_env (example_get ''developer.example.org'')"
    by (simp add: example_env_def example_get_def)
  have url: "get_file_url example_env (example_attachment 1 (Some (example_revision 1 (Inr 3)))) =
               ''/files/1/''"
    by (simp add: example_env_def example_attachment_def str_nat.simps)
  from raw_file_trusted_redirect [OF h1 h2 h3, of "''logo.png''"] h1 h3 url
  show ?thesis by simp
qed

text \<open>
  C8, as amended. For every untrusted serve of an attachment with a current revision:
  in development mode, when the read made before the \<^verbatim>\<open>try\<close> raises, that exception
  leaves the view. Otherwise (the mode is off, or that read succeeds): if the size query
  succeeds, the response carries \<^verbatim>\<open>Content-Length\<close> equal to the size; if it raises
  \<^verbatim>\<open>OSError\<close>, the header is left out, the other headers are set and the 200 streaming
  response is returned; an exception of any other class leaves the view.
\<close>

theorem raw_file_content_length:
  assumes "attachment_by_pk d attachment_id a"
    and "current_revision a = Some rv"
    and "is_untrusted env req"
  shows "(\<forall>e. DEBUG env \<longrightarrow> file_data (rev_file rv) = Inl e \<longrightarrow>
            raw_file env d req attachment_id filename = (Inl e, d)) \<and>
         ((DEBUG env \<longrightarrow> (\<exists>bytes. file_data (rev_file rv) = Inr bytes)) \<longrightarrow>
          (\<forall>n. file_size (rev_file rv) = Inr n \<longrightarrow>
            (\<exists>r. raw_file env d req attachment_id filename = (Inr r, d) \<and>
                 status_code r = 200 \<and>
                 headers r ''Content-Length'' = Some (str_nat n))) \<and>
          (file_size (rev_file rv) = Inl OSError \<longrightarrow>
            (\<exists>r. raw_file env d req attachment_id filename = (Inr r, d) \<and>
                 status_code r = 200 \<and>
                 body r = Streaming (file_data (rev_file rv)) \<and>
                 headers r ''Content-Length'' = None \<and>
                 headers r ''Content-Type'' = Some (mime_type rv) \<and>
                 headers r ''Last-Modified'' = Some (convert_to_http_date env (created rv)) \<and>
                 headers r ''Cache-Control'' = Some ''public, max-age=900'' \<and>
                 headers r ''X-Frame-Options'' = Some (''ALLOW-FROM '' @ DOMAIN env))) \<and>
          (\<forall>e. file_size (rev_file rv) = Inl e \<longrightarrow> e \<noteq> OSError \<longrightarrow>
            raw_file env d req attachment_id filename = (Inl e, d)))"
proof (intro conjI allI impI)
  fix e
  assume "DEBUG env" and "file_data (rev_file rv) = Inl e"
  then show "raw_file env d req attachment_id filename = (Inl e, d)"
    using raw_file_found [OF assms(1,2)] assms(3) by (simp add: stream_raw_file_read_raises)
next
  fix n
  assume rd: "DEBUG env \<longrightarrow> (\<exists>bytes. file_data (rev_file rv) = Inr bytes)"
    and "file_size (rev_file rv) = Inr n"
  then show "\<exists>r. raw_file env d req attachment_id filename = (Inr r, d) \<and>
                 status_code r = 200 \<and>
                 headers r ''Content-Length'' = Some (str_nat n)"
    using raw_file_found [OF assms(1,2)] assms(3) by (simp add: stream_raw_file_eq [OF rd])
next
  assume rd: "DEBUG env \<longrightarrow> (\<exists>bytes. file_data (rev_file rv) = Inr bytes)"
    and "file_size (rev_file rv) = Inl OSError"
  then show "\<exists>r. raw_file env d req attachment_id filename = (Inr r, d) \<and>
                 status_code r = 200 \<and>
                 body r = Streaming (file_data (rev_file rv)) \<and>
                 headers r ''Content-Length'' = None \<and>
                 headers r ''Content-Type'' = Some (mime_type rv) \<and>
                 headers r ''Last-Modified'' = Some (convert_to_http_date env (created rv)) \<and>
                 headers r ''Cache-Control'' = Some ''public, max-age=900'' \<and>
                 headers r ''X-Frame-Options'' = Some (''ALLOW-FROM '' @ DOMAIN env)"
    using raw_file_found [OF assms(1,2)] assms(3) by (simp add: stream_raw_file_eq [OF rd])
next
  fix e
  assume rd: "DEBUG env \<longrightarrow> (\<exists>bytes. file_data (rev_file rv) = Inr bytes)"
    and "file_size (rev_file rv) = Inl e" and "e \<noteq> OSError"
  then show "raw_file env d req attachment_id filename = (Inl e, d)"
    using raw_file_found [OF assms(1,2)] assms(3) by (simp add: stream_raw_file_eq [OF rd])
qed

text \<open>
  The theorem on the example database: in development mode at attachments 1 (size 3),
  4 (the size query raises \<^verbatim>\<open>ValueError\<close>) and 6 (the file is missing and the first
  read raises), and with the mode off at attachment 6, where the size query raises
  \<^verbatim>\<open>OSError\<close>.
\<close>

theorem raw_file_content_length_witness:
  "attachment_by_pk example_db 1 (example_attachment 1 (Some (example_revision 1 (Inr 3)))) \<and>
   attachment_by_pk example_db 4 (example_attachment 4 (Some (example_revision 4 (Inl ValueError)))) \<and>
   attachment_by_pk example_db 6 (example_attachment 6 (Some missing_revision)) \<and>
   is_untrusted example_env (example_get ''files.example.org'') \<and>
   is_untrusted production_env (example_get ''files.example.org'') \<and>
   DEBUG example_env \<and> \<not> DEBUG production_env \<and>
   (\<exists>r. raw_file example_env example_db (example_get ''files.example.org'') 1 ''logo.png'' =
          (Inr r, example_db) \<and>
        status_code r = 200 \<and> headers r ''Content-Length'' = Some ''3'') \<and>
   raw_file example_env example_db (example_get ''files.example.org'') 4 ''logo.png'' =
     (Inl ValueError, example_db) \<and>
   raw_file example_env example_db (example_get ''files.example.org'') 6 ''logo.png'' =
     (Inl OSError, example_db) \<and>
   (\<exists>r. raw_file production_env example_db (example_get ''files.example.org'') 6 ''logo.png'' =
          (Inr r, example_db) \<and>
        status_code r = 200 \<and> body r = Streaming (Inl OSError) \<and>
        headers r ''Content-Length'' = None \<and>
        headers r ''Content-Type'' = Some ''image/png'' \<and>
        headers r ''Last-Modified'' = Some ''day 7'' \<and>
        headers r ''Cache-Control'' = Some ''public, max-age=900'' \<and>
        headers r ''X-Frame-Options'' = Some ''ALLOW-FROM developer.example.org'')"
proof -
  let ?req = "example_get ''files.example.org''"
  let ?r1 = "example_revision 1 (Inr 3)"
  let ?r4 = "example_revision 4 (Inl ValueError)"
  have a1: "attachment_by_pk example_db 1 (example_attachment 1 (Some ?r1))"
    and a4: "attachment_by_pk example_db 4 (example_attachment 4 (Some ?r4))"
    and a6: "attachment_by_pk example_db 6 (example_attachment 6 (Some missing_revision))"
    by (simp_all add: attachment_by_pk_def example_defs)
  have c: "\<And>k r. current_revision (example_attachment k (Some r)) = Some r"
    by (simp add: example_attachment_def)
  have u: "is_untrusted example_env ?req" and up: "is_untrusted production_env ?req"
    by (simp_all add: production_env_def example_env_def example_get_def)
  have dbg: "DEBUG example_env" and prod: "\<not> DEBUG production_env"
    by (simp_all add: production_env_def example_env_def)
  have s1: "file_size (rev_file ?r1) = Inr 3" and s4: "file_size (rev_file ?r4) = Inl ValueError"
    and s6: "file_size (rev_file missing_revision) = Inl OSError"
    and d1: "file_data (rev_file ?r1) = Inr ''PNG''" and d4: "file_data (rev_file ?r4) = Inr ''PNG''"
    and d6: "file_data (rev_file missing_revision) = Inl OSError"
    by (simp_all add: example_revision_def example_file_def missing_revision_def missing_file_def)
  have vals: "mime_type missing_revision = ''image/png''"
    "convert_to_http_date production_env (created missing_revision) = ''day 7''"
    "DOMAIN production_env = ''developer.example.org''" "str_nat 3 = ''3''"
    by (simp_all add: example_revision_def missing_revision_def production_env_def
        example_env_def str_nat.simps)
  have w1: "\<exists>r. raw_file example_env example_db ?req 1 ''logo.png'' = (Inr r, example_db) \<and>
        status_code r = 200 \<and> headers r ''Content-Length'' = Some ''3''"
    using raw_file_content_length [OF a1 c u, of "''logo.png''"] s1 d1 by (simp add: vals)
  have w4: "raw_file example_env example_db ?req 4 ''logo.png'' = (Inl ValueError, example_db)"
    using raw_file_content_length [OF a4 c u, of "''logo.png''"] s4 d4 by simp
  have w6: "raw_file example_env example_db ?req 6 ''logo.png'' = (Inl OSError, example_db)"
    using raw_file_content_length [OF a6 c u, of "''logo.png''"] dbg d6 by simp
  have w6p: "\<exists>r. raw_file production_env example_db ?req 6 ''logo.png'' = (Inr r, example_db) \<and>
        status_code r = 200 \<and> body r = Streaming (Inl OSError) \<and>
        headers r ''Content-Length'' = None \<and>
        headers r ''Content-Type'' = Some ''image/png'' \<and>
        headers r ''Last-Modified'' = Some ''day 7'' \<and>
        headers r ''Cache-Control'' = Some ''public, max-age=900'' \<and>
        headers r ''X-Frame-Options'' = Some ''ALLOW-FROM developer.example.org''"
    using raw_file_content_length [OF a6 c up, of "''logo.png''"] prod s6 d6 by (simp add: vals)
  show ?thesis using a1 a4 a6 u up dbg prod w1 w4 w6 w6p by (intro conjI)
qed

text \<open>
  C8 as stated ("no error of any kind is propagated") fails: the file of attachment 4 can
  be read, its size query fails with \<^verbatim>\<open>ValueError\<close>, and the view ends with that
  exception (status 500).
\<close>

theorem raw_file_content_length_counterexample:
  "attachment_by_pk example_db 4 (example_attachment 4 (Some (example_revision 4 (Inl ValueError)))) \<and>
   current_revision (example_attachment 4 (Some (example_revision 4 (Inl ValueError)))) =
     Some (example_revision 4 (Inl ValueError)) \<and>
   is_untrusted example_env (example_get ''files.example.org'') \<and>
   file_data (rev_file (example_revision 4 (Inl ValueError))) = Inr ''PNG'' \<and>
   file_size (rev_file (example_revision 4 (Inl ValueError))) = Inl ValueError \<and>
   raw_file example_env example_db (example_get ''files.example.org'') 4 ''logo.png'' =
     (Inl ValueError, example_db) \<and>
   http_status (fst (raw_file example_env example_db (example_get ''files.example.org'') 4
     ''logo.png'')) = 500"
proof -
  let ?rv = "example_revision 4 (Inl ValueError)"
  have h1: "attachment_by_pk example_db 4 (example_attachment 4 (Some ?rv))"
    by (simp add: attachment_by_pk_def example_defs)
  have h2: "current_revision (example_attachment 4 (Some ?rv)) = Some ?rv"
    by (simp add: example_attachment_def)
  have h3: "is_untrusted example_env (example_get ''files.example.org'')"
    by (simp add: example_env_def example_get_def)
  have dt: "file_data (rev_file ?rv) = Inr ''PNG''"
    by (simp add: example_revision_def example_file_def)
  then have rd: "DEBUG example_env \<longrightarrow> (\<exists>bytes. file_data (rev_file ?rv) = Inr bytes)"
    by simp
  have sz: "file_size (rev_file ?rv) = Inl ValueError"
    by (simp add: example_revision_def example_file_def)
  have run: "raw_file example_env example_db (example_get ''files.example.org'') 4 ''logo.png'' =
     (Inl ValueError, example_db)"
    using raw_file_found [OF h1 h2, of example_env "example_get ''files.example.org''" "''logo.png''"]
      h3 sz by (simp add: stream_raw_file_eq [OF rd])
  show ?thesis using h1 h2 h3 dt sz run by (simp add: http_status_def)
qed

subsection \<open>The legacy redirect: \<^verbatim>\<open>mindtouch_file_redirect\<close>\<close>

lemma mindtouch_file_redirect_404:
  "(http_status (fst (mindtouch_file_redirect env d req file_id filename)) = 404) =
   (filter (\<lambda>a. mindtouch_attachment_id a = Some file_id) (attachments d) = [])"
  by (simp add: mindtouch_file_redirect_def get_object_or_404_def http_status_def
      redirect_def split: list.splits)

text \<open>
  C7. \<^verbatim>\<open>mindtouch_file_redirect\<close> answers 404 exactly when no attachment has the
  legacy identifier; when exactly one attachment has it, the answer is a permanent
  redirect (301) to the file URL of that attachment; the database is never changed.
\<close>

theorem mindtouch_file_redirect_result:
  "(http_status (fst (mindtouch_file_redirect env d req file_id filename)) = 404 \<longleftrightarrow>
      (\<forall>a\<in>set (attachments d). mindtouch_attachment_id a \<noteq> Some file_id)) \<and>
   (attachment_by_mindtouch_id d file_id a \<longrightarrow>
      mindtouch_file_redirect env d req file_id filename =
        (Inr \<lparr>status_code = 301, headers = [''Location'' \<mapsto> get_file_url env a],
              body = NoContent\<rparr>, d)) \<and>
   snd (mindtouch_file_redirect env d req file_id filename) = d"
proof (intro conjI impI)
  show "(http_status (fst (mindtouch_file_redirect env d req file_id filename)) = 404) =
        (\<forall>a\<in>set (attachments d). mindtouch_attachment_id a \<noteq> Some file_id)"
    by (simp add: mindtouch_file_redirect_404 filter_empty_conv)
next
  assume "attachment_by_mindtouch_id d file_id a"
  then have "get_object_or_404 (attachments d) (\<lambda>x. mindtouch_attachment_id x = Some file_id) = Inr a"
    by (simp add: get_object_or_404_Inr attachment_by_mindtouch_id_def)
  then show "mindtouch_file_redirect env d req file_id filename =
        (Inr \<lparr>status_code = 301, headers = [''Location'' \<mapsto> get_file_url env a],
              body = NoContent\<rparr>, d)"
    by (simp add: mindtouch_file_redirect_def redirect_def)
next
  show "snd (mindtouch_file_redirect env d req file_id filename) = d"
    by (simp add: mindtouch_file_redirect_def split: sum.splits)
qed

text \<open>
  The theorem at the legacy identifiers 99 (no attachment) and 13 (attachment 3) of the
  example database.
\<close>

theorem mindtouch_file_redirect_result_witness:
  "map mindtouch_attachment_id (attachments example_db) =
     [Some 11, Some 12, Some 13, Some 14, Some 15, Some 16] \<and>
   http_status (fst (mindtouch_file_redirect example_env example_db
     (example_get ''developer.example.org'') 99 ''logo.png'')) = 404 \<and>
   attachment_by_mindtouch_id example_db 13
     (example_attachment 3 (Some (example_revision 3 (Inl OSError)))) \<and>
   mindtouch_file_redirect example_env example_db (example_get ''developer.example.org'') 13
       ''logo.png'' =
     (Inr \<lparr>status_code = 301, headers = [''Location'' \<mapsto> ''/files/3/''], body = NoContent\<rparr>,
      example_db)"
proof -
  let ?a = "example_attachment 3 (Some (example_revision 3 (Inl OSError)))"
  have none: "\<forall>a\<in>set (attachments example_db). mindtouch_attachment_id a \<noteq> Some 99"
    by (simp add: example_db_def example_attachment_def)
  have one: "attachment_by_mindtouch_id example_db 13 ?a"
    by (simp add: attachment_by_mindtouch_id_def example_defs)
  have url: "get_file_url example_env ?a = ''/files/3/''"
    by (simp add: example_env_def example_attachment_def str_nat.simps)
  have nf: "http_status (fst (mindtouch_file_redirect example_env example_db
     (example_get ''developer.example.org'') 99 ''logo.png'')) = 404"
    using mindtouch_file_redirect_result
      [of example_env example_db "example_get ''developer.example.org''" 99 "''logo.png''"] none
    by blast
  have found: "mindtouch_file_redirect example_env example_db
       (example_get ''developer.example.org'') 13 ''logo.png'' =
     (Inr \<lparr>status_code = 301, headers = [''Location'' \<mapsto> get_file_url example_env ?a],
           body = NoContent\<rparr>, example_db)"
    using mindtouch_file_redirect_result
      [of example_env example_db "example_get ''developer.example.org''" 13 "''logo.png''" ?a] one
    by blast
  have ids: "map mindtouch_attachment_id (attachments example_db) =
     [Some 11, Some 12, Some 13, Some 14, Some 15, Some 16]"
    by (simp add: example_db_def example_attachment_def)
  show ?thesis using ids nf one found unfolding url by blast
qed

text \<open>
  C1. An attachment without a current revision is not found by \<^verbatim>\<open>raw_file\<close>
  (lemmas \<open>raw_file_missing\<close> and \<open>raw_file_no_revision\<close>), but
  \<^verbatim>\<open>mindtouch_file_redirect\<close> has no such check: attachment 2 of the example database
  has the legacy identifier 12 and no current revision, and the legacy redirect answers
  301 where \<^verbatim>\<open>raw_file\<close> answers 404.
\<close>

theorem mindtouch_file_redirect_no_revision:
  "attachment_by_mindtouch_id example_db 12 (example_attachment 2 None) \<and>
   current_revision (example_attachment 2 None) = None \<and>
   mindtouch_file_redirect example_env example_db (example_get ''developer.example.org'') 12
       ''logo.png'' =
     (Inr \<lparr>status_code = 301, headers = [''Location'' \<mapsto> ''/files/2/''], body = NoContent\<rparr>,
      example_db) \<and>
   http_status (fst (mindtouch_file_redirect example_env example_db
       (example_get ''developer.example.org'') 12 ''logo.png'')) = 301 \<and>
   raw_file example_env example_db (example_get ''developer.example.org'') 2 ''logo.png'' =
     (Inl Http404, example_db)"
proof -
  have h: "attachment_by_mindtouch_id example_db 12 (example_attachment 2 None)"
    by (simp add: attachment_by_mindtouch_id_def example_defs)
  then have g: "get_object_or_404 (attachments example_db)
                  (\<lambda>x. mindtouch_attachment_id x = Some 12) = Inr (example_attachment 2 None)"
    by (simp add: get_object_or_404_Inr attachment_by_mindtouch_id_def)
  have url: "get_file_url example_env (example_attachment 2 None) = ''/files/2/''"
    by (simp add: example_env_def example_attachment_def str_nat.simps)
  have run: "mindtouch_file_redirect example_env example_db (example_get ''developer.example.org'') 12
       ''logo.png'' =
     (Inr \<lparr>status_code = 301, headers = [''Location'' \<mapsto> ''/files/2/''], body = NoContent\<rparr>,
      example_db)"
    using g url by (simp add: mindtouch_file_redirect_def redirect_def)
  have pkh: "attachment_by_pk example_db 2 (example_attachment 2 None)"
    by (simp add: attachment_by_pk_def example_defs)
  have nf: "raw_file example_env example_db (example_get ''developer.example.org'') 2 ''logo.png'' =
     (Inl Http404, example_db)"
    using raw_file_no_revision [OF pkh] by (simp add: example_attachment_def)
  show ?thesis using h run nf by (simp add: http_status_def example_attachment_def)
qed

text \<open>
  C9. Neither \<^verbatim>\<open>raw_file\<close> nor \<^verbatim>\<open>mindtouch_file_redirect\<close> depends on the
  filename: any two filenames give the same outcome and the same database.
\<close>

theorem filename_unused:
  "raw_file env d req attachment_id filename = raw_file env d req attachment_id filename' \<and>
   mindtouch_file_redirect env d req file_id filename =
     mindtouch_file_redirect env d req file_id filename'"
  by (simp add: raw_file_def mindtouch_file_redirect_def)

subsection \<open>Uploading: \<^verbatim>\<open>edit_attachment\<close>\<close>

text \<open>
  C6. A POST by a user without upload permission, on an existing document, ends with
  \<^verbatim>\<open>PermissionDenied\<close> (status 403) and leaves the database as it was.
\<close>

theorem edit_attachment_permission_denied:
  assumes "document_by_path d document_locale document_slug doc"
    and "req_method req = ''POST''"
    and "\<not> allow_add_attachment_by env (user req)"
  shows "edit_attachment env d req document_slug document_locale = (Inl PermissionDenied, d) \<and>
         http_status (fst (edit_attachment env d req document_slug document_locale)) = 403"
  using document_lookup [OF assms(1)] assms(2,3)
  by (simp add: edit_attachment_def edit_attachment_body_def xframe_options_sameorigin_def
      http_status_def)

text \<open>
  The theorem for user 3, who may not upload, on the example document.
\<close>

theorem edit_attachment_permission_denied_witness:
  "document_by_path example_db ''en-US'' ''Web'' example_document \<and>
   req_method (example_post 3 [(''title'', ''Diagram'')]) = ''POST'' \<and>
   \<not> allow_add_attachment_by example_env (user (example_post 3 [(''title'', ''Diagram'')])) \<and>
   edit_attachment example_env example_db (example_post 3 [(''title'', ''Diagram'')]) ''Web'' ''en-US'' =
     (Inl PermissionDenied, example_db) \<and>
   http_status (fst (edit_attachment example_env example_db
     (example_post 3 [(''title'', ''Diagram'')]) ''Web'' ''en-US'')) = 403"
proof -
  let ?req = "example_post 3 [(''title'', ''Diagram'')]"
  have h2: "req_method ?req = ''POST''" by (simp add: example_post_def)
  have h3: "\<not> allow_add_attachment_by example_env (user ?req)"
    by (simp add: example_post_def example_env_def)
  from edit_attachment_permission_denied [OF example_document_by_path h2 h3]
    example_document_by_path h2 h3
  show ?thesis by blast
qed

text \<open>
  C5. A POST by a permitted user on an existing document with an invalid form returns a
  200 response that renders \<^verbatim>\<open>attachments/edit_attachment.html\<close> with the bound form
  and the document in its context; the form has a non-empty error list, and the
  database is unchanged.
\<close>

theorem edit_attachment_invalid_form:
  assumes "document_by_path d document_locale document_slug doc"
    and "req_method req = ''POST''"
    and "allow_add_attachment_by env (user req)"
    and "\<not> is_valid env (AttachmentRevisionForm (POST req) (FILES req))"
  shows "edit_attachment env d req document_slug document_locale =
           (Inr \<lparr>status_code = 200,
                 headers = [''X-Frame-Options'' \<mapsto> ''SAMEORIGIN''],
                 body = Rendered ''attachments/edit_attachment.html''
                          (Context (AttachmentRevisionForm (POST req) (FILES req)) doc)\<rparr>, d) \<and>
         form_errors env (AttachmentRevisionForm (POST req) (FILES req)) \<noteq> []"
  using document_lookup [OF assms(1)] assms(2,3,4)
  by (simp add: edit_attachment_def edit_attachment_body_def xframe_options_sameorigin_def
      render_def set_header_def is_valid_def Let_def)

text \<open>
  The theorem for a POST without a title.
\<close>

theorem edit_attachment_invalid_form_witness:
  "document_by_path example_db ''en-US'' ''Web'' example_document \<and>
   req_method (example_post 2 []) = ''POST'' \<and>
   allow_add_attachment_by example_env (user (example_post 2 [])) \<and>
   \<not> is_valid example_env
       (AttachmentRevisionForm (POST (example_post 2 [])) (FILES (example_post 2 []))) \<and>
   edit_attachment example_env example_db (example_post 2 []) ''Web'' ''en-US'' =
     (Inr \<lparr>status_code = 200,
           headers = [''X-Frame-Options'' \<mapsto> ''SAMEORIGIN''],
           body = Rendered ''attachments/edit_attachment.html''
                    (Context (AttachmentRevisionForm (POST (example_post 2 []))
                                (FILES (example_post 2 []))) example_document)\<rparr>, example_db) \<and>
   form_errors example_env
     (AttachmentRevisionForm (POST (example_post 2 [])) (FILES (example_post 2 []))) =
     [(''title'', ''This field is required.'')]"
proof -
  let ?req = "example_post 2 []"
  have h2: "req_method ?req = ''POST''" by (simp add: example_post_def)
  have h3: "allow_add_attachment_by example_env (user ?req)"
    by (simp add: example_post_def example_env_def)
  have errs: "form_errors example_env (AttachmentRevisionForm (POST ?req) (FILES ?req)) =
     [(''title'', ''This field is required.'')]"
    by (simp add: example_post_def example_env_def AttachmentRevisionForm_def)
  then have h4: "\<not> is_valid example_env (AttachmentRevisionForm (POST ?req) (FILES ?req))"
    by (simp add: is_valid_def)
  from edit_attachment_invalid_form [OF example_document_by_path h2 h3 h4]
    example_document_by_path h2 h3 h4 errs
  show ?thesis by blast
qed

text \<open>
  C4. A POST by a permitted user on an existing document with a valid form appends
  exactly one attachment \<open>a\<close>, with a new primary key and the title of the form's
  revision, exactly one revision \<open>r\<close>, which is the form's revision with the user as
  creator and \<open>a\<close> as attachment, and one row \<open>da\<close> that attaches \<open>a\<close> to the
  document with the user and the revision; the three writes are issued in this order,
  and the response is a redirect to the edit URL of the document.
\<close>

theorem edit_attachment_valid_form:
  assumes "document_by_path d document_locale document_slug doc"
    and "req_method req = ''POST''"
    and "allow_add_attachment_by env (user req)"
    and "is_valid env (AttachmentRevisionForm (POST req) (FILES req))"
  shows "\<exists>a r da d'.
           edit_attachment env d req document_slug document_locale =
             (Inr \<lparr>status_code = 302,
                   headers = [''Location'' \<mapsto> get_edit_url env doc,
                              ''X-Frame-Options'' \<mapsto> ''SAMEORIGIN''],
                   body = NoContent\<rparr>, d') \<and>
           attachments d' = attachments d @ [a] \<and>
           pk a \<notin> pk ` set (attachments d) \<and>
           title a = rev_title (form_save env (AttachmentRevisionForm (POST req) (FILES req))) \<and>
           revisions d' = revisions d @ [r] \<and>
           (\<exists>k. r = (form_save env (AttachmentRevisionForm (POST req) (FILES req)))
                      \<lparr>rev_pk := Some k, rev_attachment := Some (pk a),
                       creator := Some (user req)\<rparr>) \<and>
           document_attachments d' = document_attachments d @ [da] \<and>
           da = \<lparr>da_file = pk a, da_document = doc_pk doc, attached_by = user req,
                 da_revision = rev_pk r\<rparr> \<and>
           documents d' = documents d \<and>
           writes d' = writes d @ [InsertAttachment a, InsertRevision r, InsertDocumentAttachment da]"
proof -
  define form where "form = AttachmentRevisionForm (POST req) (FILES req)"
  define a where "a = \<lparr>pk = next_pk (map pk (attachments d)), title = rev_title (form_save env form),
                        mindtouch_attachment_id = None, current_revision = None\<rparr>"
  define k where "k = next_pk (concat (map (\<lambda>x. case rev_pk x of None \<Rightarrow> [] | Some k \<Rightarrow> [k]) (revisions d)))"
  define r where "r = (form_save env form)\<lparr>rev_pk := Some k, rev_attachment := Some (pk a),
                                            creator := Some (user req)\<rparr>"
  define da where "da = \<lparr>da_file = pk a, da_document = doc_pk doc, attached_by = user req,
                          da_revision = rev_pk r\<rparr>"
  define d' where "d' = d\<lparr>attachments := attachments d @ [a],
                          revisions := revisions d @ [r],
                          document_attachments := document_attachments d @ [da],
                          writes := writes d @ [InsertAttachment a, InsertRevision r,
                                                InsertDocumentAttachment da]\<rparr>"
  have run: "edit_attachment env d req document_slug document_locale =
             (Inr \<lparr>status_code = 302,
                   headers = [''Location'' \<mapsto> get_edit_url env doc,
                              ''X-Frame-Options'' \<mapsto> ''SAMEORIGIN''],
                   body = NoContent\<rparr>, d')"
    using document_lookup [OF assms(1)] assms(2,3,4)
    by (simp add: edit_attachment_def edit_attachment_body_def xframe_options_sameorigin_def
        redirect_def set_header_def Let_def Attachment_objects_create_def revision_save_def
        attach_def form_def a_def k_def r_def da_def d'_def)
  have fresh: "pk a \<notin> pk ` set (attachments d)"
    using next_pk_fresh [of "map pk (attachments d)"] by (simp add: a_def)
  have "title a = rev_title (form_save env form)" by (simp add: a_def)
  moreover have "attachments d' = attachments d @ [a]" "revisions d' = revisions d @ [r]"
    "document_attachments d' = document_attachments d @ [da]" "documents d' = documents d"
    "writes d' = writes d @ [InsertAttachment a, InsertRevision r, InsertDocumentAttachment da]"
    by (simp_all add: d'_def)
  ultimately show ?thesis
    using run fresh r_def da_def unfolding form_def by blast
qed

text \<open>
  The theorem for a POST of user 2 with the title \<^verbatim>\<open>Diagram\<close> and a file.
\<close>

theorem edit_attachment_valid_form_witness:
  "document_by_path example_db ''en-US'' ''Web'' example_document \<and>
   req_method (example_post 2 [(''title'', ''Diagram'')]) = ''POST'' \<and>
   allow_add_attachment_by example_env (user (example_post 2 [(''title'', ''Diagram'')])) \<and>
   is_valid example_env
     (AttachmentRevisionForm (POST (example_post 2 [(''title'', ''Diagram'')]))
        (FILES (example_post 2 [(''title'', ''Diagram'')]))) \<and>
   (\<exists>a r da d'.
      edit_attachment example_env example_db (example_post 2 [(''title'', ''Diagram'')])
          ''Web'' ''en-US'' =
        (Inr \<lparr>status_code = 302,
              headers = [''Location'' \<mapsto> ''/en-US/docs/Web$edit'',
                         ''X-Frame-Options'' \<mapsto> ''SAMEORIGIN''],
              body = NoContent\<rparr>, d') \<and>
      attachments d' = attachments example_db @ [a] \<and>
      title a = ''Diagram'' \<and>
      revisions d' = revisions example_db @ [r] \<and>
      creator r = Some 2 \<and> rev_attachment r = Some (pk a) \<and>
      document_attachments d' = [da] \<and>
      da = \<lparr>da_file = pk a, da_document = 4, attached_by = 2, da_revision = rev_pk r\<rparr> \<and>
      writes d' = [InsertAttachment a, InsertRevision r, InsertDocumentAttachment da])"
proof -
  let ?req = "example_post 2 [(''title'', ''Diagram'')]"
  let ?form = "AttachmentRevisionForm (POST ?req) (FILES ?req)"
  have h2: "req_method ?req = ''POST''" by (simp add: example_post_def)
  have h3: "allow_add_attachment_by example_env (user ?req)"
    by (simp add: example_post_def example_env_def)
  have h4: "is_valid example_env ?form"
    by (simp add: is_valid_def example_post_def example_env_def AttachmentRevisionForm_def)
  have vals: "get_edit_url example_env example_document = ''/en-US/docs/Web$edit''"
    "rev_title (form_save example_env ?form) = ''Diagram''"
    "user ?req = 2" "doc_pk example_document = 4"
    "document_attachments example_db = []" "writes example_db = []"
    by (simp_all add: example_env_def example_document_def example_post_def
        AttachmentRevisionForm_def example_db_def)
  from edit_attachment_valid_form [OF example_document_by_path h2 h3 h4]
  obtain a r da d' where
    "edit_attachment example_env example_db ?req ''Web'' ''en-US'' =
             (Inr \<lparr>status_code = 302,
                   headers = [''Location'' \<mapsto> get_edit_url example_env example_document,
                              ''X-Frame-Options'' \<mapsto> ''SAMEORIGIN''],
                   body = NoContent\<rparr>, d')"
    "attachments d' = attachments example_db @ [a]"
    "title a = rev_title (form_save example_env ?form)"
    "revisions d' = revisions example_db @ [r]"
    "\<exists>k. r = (form_save example_env ?form)
                      \<lparr>rev_pk := Some k, rev_attachment := Some (pk a),
                       creator := Some (user ?req)\<rparr>"
    "document_attachments d' = document_attachments example_db @ [da]"
    "da = \<lparr>da_file = pk a, da_document = doc_pk example_document, attached_by = user ?req,
                 da_revision = rev_pk r\<rparr>"
    "writes d' = writes example_db @ [InsertAttachment a, InsertRevision r, InsertDocumentAttachment da]"
    by blast
  then have "edit_attachment example_env example_db ?req ''Web'' ''en-US'' =
        (Inr \<lparr>status_code = 302,
              headers = [''Location'' \<mapsto> ''/en-US/docs/Web$edit'',
                         ''X-Frame-Options'' \<mapsto> ''SAMEORIGIN''],
              body = NoContent\<rparr>, d') \<and>
      attachments d' = attachments example_db @ [a] \<and>
      title a = ''Diagram'' \<and>
      revisions d' = revisions example_db @ [r] \<and>
      creator r = Some 2 \<and> rev_attachment r = Some (pk a) \<and>
      document_attachments d' = [da] \<and>
      da = \<lparr>da_file = pk a, da_document = 4, attached_by = 2, da_revision = rev_pk r\<rparr> \<and>
      writes d' = [InsertAttachment a, InsertRevision r, InsertDocumentAttachment da]"
    by (auto simp add: vals)
  then have "\<exists>a r da d'. edit_attachment example_env example_db ?req ''Web'' ''en-US'' =
        (Inr \<lparr>status_code = 302,
              headers = [''Location'' \<mapsto> ''/en-US/docs/Web$edit'',
                         ''X-Frame-Options'' \<mapsto> ''SAMEORIGIN''],
              body = NoContent\<rparr>, d') \<and>
      attachments d' = attachments example_db @ [a] \<and>
      title a = ''Diagram'' \<and>
      revisions d' = revisions example_db @ [r] \<and>
      creator r = Some 2 \<and> rev_attachment r = Some (pk a) \<and>
      document_attachments d' = [da] \<and>
      da = \<lparr>da_file = pk a, da_document = 4, attached_by = 2, da_revision = rev_pk r\<rparr> \<and>
      writes d' = [InsertAttachment a, InsertRevision r, InsertDocumentAttachment da]"
    by blast
  with example_document_by_path h2 h3 h4 show ?thesis by (intro conjI)
qed

lemma xframe_options_sameorigin_Inl:
  "(xframe_options_sameorigin out = Inl e) = (out = Inl e)"
  by (simp add: xframe_options_sameorigin_def split: sum.splits option.splits)

lemma edit_attachment_body_denied_iff:
  "(fst (edit_attachment_body env d req document_slug document_locale) = Inl PermissionDenied) =
   ((\<exists>doc. document_by_path d document_locale document_slug doc) \<and>
    req_method req = ''POST'' \<and> \<not> allow_add_attachment_by env (user req))"
proof (cases "get_object_or_404 (documents d)
     (\<lambda>x. doc_locale x = document_locale \<and> doc_slug x = document_slug)")
  case (Inl e)
  then have "e = Http404 \<or> e = MultipleObjectsReturned" by (rule get_object_or_404_Inl)
  moreover have "\<not> (\<exists>doc. document_by_path d document_locale document_slug doc)"
  proof
    assume "\<exists>doc. document_by_path d document_locale document_slug doc"
    then obtain doc where "document_by_path d document_locale document_slug doc" ..
    then show False using Inl by (simp add: document_lookup)
  qed
  ultimately show ?thesis using Inl by (auto simp add: edit_attachment_body_def)
next
  case (Inr doc)
  then have "document_by_path d document_locale document_slug doc"
    by (simp add: get_object_or_404_Inr document_by_path_def)
  then have ex: "\<exists>doc. document_by_path d document_locale document_slug doc" ..
  show ?thesis using Inr ex
    by (simp add: edit_attachment_body_def Let_def split: prod.splits)
qed

text \<open>
  C10, as amended. \<^verbatim>\<open>edit_attachment\<close> ends with \<^verbatim>\<open>PermissionDenied\<close> if and
  only if the document exists, the method is POST and the user lacks upload permission.
  For every request on an existing document whose method is not POST the result is a
  redirect to the edit URL of the document with the database unchanged, and it is the
  same whatever the permission predicate is.
\<close>

theorem edit_attachment_permission_denied_iff:
  "(fst (edit_attachment env d req document_slug document_locale) = Inl PermissionDenied \<longleftrightarrow>
      (\<exists>doc. document_by_path d document_locale document_slug doc) \<and>
      req_method req = ''POST'' \<and> \<not> allow_add_attachment_by env (user req)) \<and>
   (\<forall>doc. document_by_path d document_locale document_slug doc \<and> req_method req \<noteq> ''POST'' \<longrightarrow>
      edit_attachment env d req document_slug document_locale =
        (Inr \<lparr>status_code = 302,
              headers = [''Location'' \<mapsto> get_edit_url env doc,
                         ''X-Frame-Options'' \<mapsto> ''SAMEORIGIN''],
              body = NoContent\<rparr>, d) \<and>
      (\<forall>p. edit_attachment (env\<lparr>allow_add_attachment_by := p\<rparr>) d req document_slug
              document_locale =
            edit_attachment env d req document_slug document_locale))"
proof (intro conjI allI impI)
  have "fst (edit_attachment env d req document_slug document_locale) =
        xframe_options_sameorigin (fst (edit_attachment_body env d req document_slug document_locale))"
    by (simp add: edit_attachment_def split: prod.splits)
  then show "(fst (edit_attachment env d req document_slug document_locale) = Inl PermissionDenied) =
     ((\<exists>doc. document_by_path d document_locale document_slug doc) \<and>
      req_method req = ''POST'' \<and> \<not> allow_add_attachment_by env (user req))"
    by (simp add: xframe_options_sameorigin_Inl edit_attachment_body_denied_iff)
next
  fix doc
  assume h: "document_by_path d document_locale document_slug doc \<and> req_method req \<noteq> ''POST''"
  then show "edit_attachment env d req document_slug document_locale =
            (Inr \<lparr>status_code = 302,
                  headers = [''Location'' \<mapsto> get_edit_url env doc,
                             ''X-Frame-Options'' \<mapsto> ''SAMEORIGIN''],
                  body = NoContent\<rparr>, d)"
    using document_lookup [of d document_locale document_slug doc]
    by (simp add: edit_attachment_def edit_attachment_body_def xframe_options_sameorigin_def
        redirect_def set_header_def)
next
  fix doc p
  assume h: "document_by_path d document_locale document_slug doc \<and> req_method req \<noteq> ''POST''"
  then show "edit_attachment (env\<lparr>allow_add_attachment_by := p\<rparr>) d req document_slug
              document_locale =
            edit_attachment env d req document_slug document_locale"
    using document_lookup [of d document_locale document_slug doc]
    by (simp add: edit_attachment_def edit_attachment_body_def)
qed

text \<open>
  The theorem for a POST of user 3 and for a GET on the example document.
\<close>

theorem edit_attachment_permission_denied_iff_witness:
  "fst (edit_attachment example_env example_db (example_post 3 []) ''Web'' ''en-US'') =
     Inl PermissionDenied \<and>
   document_by_path example_db ''en-US'' ''Web'' example_document \<and>
   req_method (example_get ''developer.example.org'') \<noteq> ''POST'' \<and>
   edit_attachment example_env example_db (example_get ''developer.example.org'') ''Web'' ''en-US'' =
     (Inr \<lparr>status_code = 302,
           headers = [''Location'' \<mapsto> ''/en-US/docs/Web$edit'',
                      ''X-Frame-Options'' \<mapsto> ''SAMEORIGIN''],
           body = NoContent\<rparr>, example_db) \<and>
   edit_attachment (example_env\<lparr>allow_add_attachment_by := (\<lambda>u. False)\<rparr>) example_db
       (example_get ''developer.example.org'') ''Web'' ''en-US'' =
     edit_attachment example_env example_db (example_get ''developer.example.org'') ''Web'' ''en-US''"
proof -
  have post: "req_method (example_post 3 []) = ''POST''"
    "\<not> allow_add_attachment_by example_env (user (example_post 3 []))"
    by (simp_all add: example_post_def example_env_def)
  have ex: "\<exists>doc. document_by_path example_db ''en-US'' ''Web'' doc"
    using example_document_by_path ..
  have get: "req_method (example_get ''developer.example.org'') \<noteq> ''POST''"
    by (simp add: example_get_def)
  have url: "get_edit_url example_env example_document = ''/en-US/docs/Web$edit''"
    by (simp add: example_env_def example_document_def)
  have denied: "fst (edit_attachment example_env example_db (example_post 3 []) ''Web'' ''en-US'') =
     Inl PermissionDenied"
    using edit_attachment_permission_denied_iff
      [of example_env example_db "example_post 3 []" "''Web''" "''en-US''"] post ex
    by blast
  have other: "edit_attachment example_env example_db (example_get ''developer.example.org'')
        ''Web'' ''en-US'' =
     (Inr \<lparr>status_code = 302,
           headers = [''Location'' \<mapsto> get_edit_url example_env example_document,
                      ''X-Frame-Options'' \<mapsto> ''SAMEORIGIN''],
           body = NoContent\<rparr>, example_db) \<and>
     (\<forall>p. edit_attachment (example_env\<lparr>allow_add_attachment_by := p\<rparr>) example_db
       (example_get ''developer.example.org'') ''Web'' ''en-US'' =
     edit_attachment example_env example_db (example_get ''developer.example.org'') ''Web'' ''en-US'')"
    using edit_attachment_permission_denied_iff
      [of example_env example_db "example_get ''developer.example.org''" "''Web''" "''en-US''"]
      example_document_by_path get
    by blast
  show ?thesis using denied example_document_by_path get other unfolding url by blast
qed

text \<open>
  C10 as stated, without the condition on the document, fails: the document is looked
  up first, so a POST of a user without upload permission for a document that does not
  exist ends with \<^verbatim>\<open>Http404\<close>, not with \<^verbatim>\<open>PermissionDenied\<close>.
\<close>

theorem edit_attachment_permission_denied_iff_counterexample:
  "req_method (example_post 3 []) = ''POST'' \<and>
   \<not> allow_add_attachment_by example_env (user (example_post 3 [])) \<and>
   documents (example_db\<lparr>documents := []\<rparr>) = [] \<and>
   fst (edit_attachment example_env (example_db\<lparr>documents := []\<rparr>) (example_post 3 [])
          ''Web'' ''en-US'') = Inl Http404 \<and>
   fst (edit_attachment example_env (example_db\<lparr>documents := []\<rparr>) (example_post 3 [])
          ''Web'' ''en-US'') \<noteq> Inl PermissionDenied"
  by (simp add: edit_attachment_def edit_attachment_body_def get_object_or_404_def
      xframe_options_sameorigin_def example_post_def example_env_def)

end
